theory Spec2Isabelle
  imports Complex_Main
begin

section \<open>Python values and errors\<close>

text \<open>
  The exceptions the modelled code can raise. A function of the source that may raise
  returns \<open>error + 'a\<close> when it is pure, and \<open>'w \<times> (error + 'a)\<close> when it acts on
  a world \<open>'w\<close>: the world is the state at the moment of the raise or of the return.

  Python floats are idealised as real numbers throughout: rounding and overflow are not
  modelled.
\<close>

datatype error = AssertionError | StatisticsError | TypeError | ZeroDivisionError
  | ValueError | IndexError | FileNotFoundError | UnpicklingError | RuntimeError


text \<open>
  Python's \<^verbatim>\<open>a % b\<close> on ints: it raises on a zero divisor, and the result has the
  sign of the divisor, as \<open>mod\<close> on \<open>int\<close> has.
\<close>

definition py_mod :: "int \<Rightarrow> int \<Rightarrow> error + int" where
  "py_mod a b = (if b = 0 then Inl ZeroDivisionError else Inr (a mod b))"

text \<open>Python's \<^verbatim>\<open>str\<close> of an int, as used by the f-strings that name output files.\<close>

fun str_nat :: "nat \<Rightarrow> string" where
  "str_nat n =
     (if n < 10 then [''0123456789'' ! n]
      else str_nat (n div 10) @ [''0123456789'' ! (n mod 10)])"

declare str_nat.simps [simp del]

definition str_int :: "int \<Rightarrow> string" where
  "str_int i = (if i < 0 then CHR ''-'' # str_nat (nat (- i)) else str_nat (nat i))"

text \<open>
  \<^verbatim>\<open>xs[i]\<close> on a Python sequence: an index from \<open>-len(xs)\<close> up to \<open>-1\<close> counts
  from the end, and an index outside \<open>-len(xs) .. len(xs) - 1\<close> raises
  \<^verbatim>\<open>IndexError\<close>.
\<close>

definition getitem :: "'a list \<Rightarrow> int \<Rightarrow> error + 'a" where
  "getitem xs i =
     (if 0 \<le> i \<and> i < int (length xs) then Inr (xs ! nat i)
      else if i < 0 \<and> - int (length xs) \<le> i then Inr (xs ! nat (int (length xs) + i))
      else Inl IndexError)"

subsection \<open>Procedures on a world\<close>

text \<open>
  Everything the code reaches outside itself (model parameters, the random generator,
  files, the terminal) is one world \<open>'w\<close>. A procedure takes the world and returns
  the world it leaves, with its result or the exception it raised; nothing in the source
  catches an exception, so a raise ends every enclosing procedure.
\<close>

type_synonym ('w, 'a) proc = "'w \<Rightarrow> 'w \<times> (error + 'a)"

definition preturn :: "'a \<Rightarrow> ('w, 'a) proc" where
  "preturn v w = (w, Inr v)"

definition plift :: "error + 'a \<Rightarrow> ('w, 'a) proc" where
  "plift r w = (w, r)"

definition pbind :: "('w, 'a) proc \<Rightarrow> ('a \<Rightarrow> ('w, 'b) proc) \<Rightarrow> ('w, 'b) proc" where
  "pbind f g w = (case f w of (w', Inl e) \<Rightarrow> (w', Inl e) | (w', Inr v) \<Rightarrow> g v w')"

section \<open>The model interface\<close>

text \<open>
  Modelled from the spec: \<^verbatim>\<open>BaseModel\<close> (deepext/base is not among the sources).
  A model adapter is an object with the methods \<^verbatim>\<open>train_batch\<close>, \<^verbatim>\<open>predict\<close>,
  \<^verbatim>\<open>save_weight\<close> and \<^verbatim>\<open>get_model_config\<close>; its state lives in the world.
  \<open>class_name\<close> is \<^verbatim>\<open>model.__class__.__name__\<close>.
\<close>

record ('w, 'tn, 'arr, 'cfg) BaseModel =
  class_name :: string
  train_batch :: "'tn \<Rightarrow> 'tn \<Rightarrow> ('w, real) proc"
  predict :: "'tn \<Rightarrow> ('w, 'arr) proc"
  save_weight :: "string \<Rightarrow> ('w, unit) proc"
  get_model_config :: "('w, 'cfg) proc"

section \<open>utils/callbacks.py: the learning-rate schedulers\<close>




text \<open>
  \<^verbatim>\<open>
  class WarmUpLRScheduler:
      def __init__(self, warmup_lr=1e-2, lr=1e-4, warmup_epochs=10):
          self._warmup_lr = warmup_lr
          self._warmup_epochs = warmup_epochs
          self._lr = lr

      def __call__(self, epoch: int):
          return self._warmup_lr if epoch < self._warmup_epochs else self._lr
  \<close>
  The two rates are returned as they were stored, whatever their type.
\<close>

record 'a WarmUpLRScheduler =
  warmup_lr :: 'a
  warmup_epochs :: int
  lr :: 'a

definition WarmUpLRScheduler_init :: "real option \<Rightarrow> real option \<Rightarrow> int option \<Rightarrow> real WarmUpLRScheduler" where
  "WarmUpLRScheduler_init wl l we =
     \<lparr>warmup_lr = (case wl of None \<Rightarrow> 1 / 100 | Some v \<Rightarrow> v),
      warmup_epochs = (case we of None \<Rightarrow> 10 | Some n \<Rightarrow> n),
      lr = (case l of None \<Rightarrow> 1 / 10000 | Some v \<Rightarrow> v)\<rparr>"

definition WarmUpLRScheduler_call :: "'a WarmUpLRScheduler \<Rightarrow> int \<Rightarrow> 'a" where
  "WarmUpLRScheduler_call self epoch =
     (if epoch < warmup_epochs self then warmup_lr self else lr self)"

section \<open>utils/callbacks.py: the periodic callbacks\<close>

text \<open>
  The library calls of the callbacks: \<^verbatim>\<open>np.random.randint\<close>, \<^verbatim>\<open>tensor.shape\<close>,
  \<^verbatim>\<open>Image.save\<close>, \<^verbatim>\<open>tensor.view(...).cuda()\<close>, \<^verbatim>\<open>tensor.argmax(-1).item()\<close>,
  \<^verbatim>\<open>ToPILImage\<close> on the first image of a batch, the four plotting calls
  (\<^verbatim>\<open>plt.figure\<close>, \<^verbatim>\<open>sns.heatmap\<close>, \<^verbatim>\<open>plt.savefig\<close>, \<^verbatim>\<open>plt.close\<close>) taken together,
  \<^verbatim>\<open>cv2.imwrite\<close>, \<^verbatim>\<open>draw_bounding_boxes_with_name_tag\<close> of image_utils and
  \<^verbatim>\<open>Path.joinpath\<close>. They are parameters of the model.
\<close>

record ('w, 'tn, 'img, 'arr) callback_env =
  randint :: "int \<Rightarrow> int \<Rightarrow> ('w, int) proc"
  shape :: "'tn \<Rightarrow> nat list"
  image_save :: "'img \<Rightarrow> string \<Rightarrow> ('w, unit) proc"
  view_cuda :: "'tn \<Rightarrow> nat list \<Rightarrow> ('w, 'tn) proc"
  argmax_item :: "'tn \<Rightarrow> int"
  to_pil_first :: "'tn \<Rightarrow> 'img"
  heatmap_savefig :: "'tn \<Rightarrow> string \<Rightarrow> ('w, unit) proc"
  imwrite :: "string \<Rightarrow> 'arr \<Rightarrow> ('w, unit) proc"
  draw_bounding_boxes_with_name_tag ::
    "'arr \<Rightarrow> (real \<times> real \<times> real \<times> real \<times> int) list \<Rightarrow> int \<times> int \<times> int \<Rightarrow> string \<Rightarrow> 'arr"
  joinpath :: "string \<Rightarrow> string \<Rightarrow> string"

text \<open>
  \<^verbatim>\<open>
  class GenerateSegmentationImageCallback:
      def __call__(self, epoch: int):
          if (epoch + 1) % self._per_epoch != 0:
              return
          data_len = len(self._dataset)
          random_image_index = np.random.randint(0, data_len)
          img_tensor, _ = self._dataset[random_image_index]
          result_img = self._model.draw_predicted_result(img_tensor,
              img_size_for_model=img_tensor.shape[1:], color_palette=self._color_palette)
          result_img.save(f"{self._output_dir}/result_image{epoch + 1}.png")
  \<close>
\<close>

record ('w, 'tn, 'img, 'lbl) GenerateSegmentationImageCallback =
  gs_draw_predicted_result :: "'tn \<Rightarrow> nat list \<Rightarrow> int list \<Rightarrow> ('w, 'img) proc"
  gs_output_dir :: string
  gs_per_epoch :: int
  gs_dataset :: "('tn \<times> 'lbl) list"
  gs_alpha :: int
  gs_color_palette :: "int list"

definition GenerateSegmentationImageCallback_call ::
  "('w, 'tn, 'img, 'arr) callback_env \<Rightarrow> ('w, 'tn, 'img, 'lbl) GenerateSegmentationImageCallback
     \<Rightarrow> int \<Rightarrow> ('w, unit) proc" where
  "GenerateSegmentationImageCallback_call env self epoch =
     pbind (plift (py_mod (epoch + 1) (gs_per_epoch self))) (\<lambda>r.
       if r \<noteq> 0 then preturn ()
       else
         let data_len = int (length (gs_dataset self)) in
         pbind (randint env 0 data_len) (\<lambda>random_image_index.
         pbind (plift (getitem (gs_dataset self) random_image_index)) (\<lambda>(img_tensor, _).
         pbind (gs_draw_predicted_result self img_tensor (drop 1 (shape env img_tensor))
                  (gs_color_palette self)) (\<lambda>result_img.
         image_save env result_img
           (gs_output_dir self @ ''/result_image'' @ str_int (epoch + 1) @ ''.png'')))))"

text \<open>
  \<^verbatim>\<open>
  class GenerateAttentionMapCallback:
      def __call__(self, epoch: int):
          if (epoch + 1) % self._per_epoch != 0:
              return
          self._model.eval()
          data_len = len(self._dataset)
          random_image_index = np.random.randint(0, data_len)
          img_tensor, label = self._dataset[random_image_index]
          img_tensor = img_tensor.view(1, img_tensor.shape[0], img_tensor.shape[1],
                                       img_tensor.shape[2]).cuda()
          perception_pred, attention_pred, attention_map = self._model(img_tensor)
          pred_label = perception_pred.argmax(-1).item()
          img: Image.Image = self._to_pil(img_tensor.detach().cpu()[0])
          img.save(f"{self._out_dir}/epoch{epoch + 1}_t{label}_p{pred_label}.png")
          plt.figure()
          sns.heatmap(attention_map.cpu().detach().numpy()[0][0])
          plt.savefig(f"{self._out_dir}/epoch{epoch + 1}_attention.png")
          plt.close('all')
  \<close>
  The labels of the dataset are ints.
\<close>

record ('w, 'tn) GenerateAttentionMapCallback =
  ga_out_dir :: string
  ga_per_epoch :: int
  ga_dataset :: "('tn \<times> int) list"
  ga_model_eval :: "('w, unit) proc"
  ga_model_forward :: "'tn \<Rightarrow> ('w, 'tn \<times> 'tn \<times> 'tn) proc"

definition GenerateAttentionMapCallback_call ::
  "('w, 'tn, 'img, 'arr) callback_env \<Rightarrow> ('w, 'tn) GenerateAttentionMapCallback
     \<Rightarrow> int \<Rightarrow> ('w, unit) proc" where
  "GenerateAttentionMapCallback_call env self epoch =
     pbind (plift (py_mod (epoch + 1) (ga_per_epoch self))) (\<lambda>r.
       if r \<noteq> 0 then preturn ()
       else
         pbind (ga_model_eval self) (\<lambda>_.
         let data_len = int (length (ga_dataset self)) in
         pbind (randint env 0 data_len) (\<lambda>random_image_index.
         pbind (plift (getitem (ga_dataset self) random_image_index)) (\<lambda>(img_tensor, label).
         pbind (plift (getitem (shape env img_tensor) 0)) (\<lambda>s0.
         pbind (plift (getitem (shape env img_tensor) 1)) (\<lambda>s1.
         pbind (plift (getitem (shape env img_tensor) 2)) (\<lambda>s2.
         pbind (view_cuda env img_tensor [1, s0, s1, s2]) (\<lambda>img_tensor.
         pbind (ga_model_forward self img_tensor) (\<lambda>(perception_pred, attention_pred, attention_map).
         let pred_label = argmax_item env perception_pred;
             img = to_pil_first env img_tensor in
         pbind (image_save env img
                  (ga_out_dir self @ ''/epoch'' @ str_int (epoch + 1) @ ''_t'' @ str_int label
                     @ ''_p'' @ str_int pred_label @ ''.png'')) (\<lambda>_.
         heatmap_savefig env attention_map
           (ga_out_dir self @ ''/epoch'' @ str_int (epoch + 1) @ ''_attention.png'')))))))))))"

text \<open>
  \<^verbatim>\<open>
  class VisualizeRandomObjectDetectionResult:
      def __call__(self, epoch: int):
          if (epoch + 1) % self._per_epoch != 0:
              return
          data_len = len(self._dataset)
          random_image_index = np.random.randint(0, data_len)
          image, teacher_bboxes = self._dataset[random_image_index]
          assert isinstance(image, torch.Tensor), "Expected image type is Tensor."
          result_img = self._model.draw_predicted_result(image,
              img_size_for_model=(image.shape[-2], image.shape[-1]),
              label_names=self._label_names)
          image = self._draw_teacher_bboxes(result_img, teacher_bboxes=teacher_bboxes)
          cv2.imwrite(f"{self._out_dir}/result_{epoch + 1}.png", image)

      def _draw_teacher_bboxes(self, image, teacher_bboxes):
          if teacher_bboxes is None or len(teacher_bboxes) == 0:
              return image
          for bbox in teacher_bboxes:
              image = draw_bounding_boxes_with_name_tag(image, [bbox],
                  color=self._teacher_color, text=self._label_names[bbox[-1]])
          return image
  \<close>
\<close>

datatype 'tn image_object = Tensor 'tn | Other_object

type_synonym bbox = "real \<times> real \<times> real \<times> real \<times> int"

record ('w, 'tn, 'arr) VisualizeRandomObjectDetectionResult =
  vr_draw_predicted_result :: "'tn \<Rightarrow> nat \<times> nat \<Rightarrow> string list \<Rightarrow> ('w, 'arr) proc"
  vr_dataset :: "('tn image_object \<times> bbox list option) list"
  vr_pred_color :: "int \<times> int \<times> int"
  vr_teacher_color :: "int \<times> int \<times> int"
  vr_per_epoch :: int
  vr_out_dir :: string
  vr_img_size :: "int \<times> int"
  vr_label_names :: "string list"

fun draw_teacher_bboxes_loop ::
  "('w, 'tn, 'img, 'arr) callback_env \<Rightarrow> ('w, 'tn, 'arr) VisualizeRandomObjectDetectionResult
     \<Rightarrow> 'arr \<Rightarrow> bbox list \<Rightarrow> error + 'arr" where
  "draw_teacher_bboxes_loop env self img [] = Inr img"
| "draw_teacher_bboxes_loop env self img (bbox # rest) =
     (case getitem (vr_label_names self) (snd (snd (snd (snd bbox)))) of
        Inl e \<Rightarrow> Inl e
      | Inr label_text \<Rightarrow>
          draw_teacher_bboxes_loop env self
            (draw_bounding_boxes_with_name_tag env img [bbox] (vr_teacher_color self) label_text)
            rest)"

definition draw_teacher_bboxes ::
  "('w, 'tn, 'img, 'arr) callback_env \<Rightarrow> ('w, 'tn, 'arr) VisualizeRandomObjectDetectionResult
     \<Rightarrow> 'arr \<Rightarrow> bbox list option \<Rightarrow> error + 'arr" where
  "draw_teacher_bboxes env self img teacher_bboxes =
     (case teacher_bboxes of
        None \<Rightarrow> Inr img
      | Some bs \<Rightarrow> if length bs = 0 then Inr img else draw_teacher_bboxes_loop env self img bs)"

definition VisualizeRandomObjectDetectionResult_call ::
  "('w, 'tn, 'img, 'arr) callback_env \<Rightarrow> ('w, 'tn, 'arr) VisualizeRandomObjectDetectionResult
     \<Rightarrow> int \<Rightarrow> ('w, unit) proc" where
  "VisualizeRandomObjectDetectionResult_call env self epoch =
     pbind (plift (py_mod (epoch + 1) (vr_per_epoch self))) (\<lambda>r.
       if r \<noteq> 0 then preturn ()
       else
         let data_len = int (length (vr_dataset self)) in
         pbind (randint env 0 data_len) (\<lambda>random_image_index.
         pbind (plift (getitem (vr_dataset self) random_image_index)) (\<lambda>(img, teacher_bboxes).
           case img of
             Other_object \<Rightarrow> plift (Inl AssertionError)
           | Tensor image_tensor \<Rightarrow>
               pbind (plift (getitem (shape env image_tensor) (- 2))) (\<lambda>h.
               pbind (plift (getitem (shape env image_tensor) (- 1))) (\<lambda>w.
               pbind (vr_draw_predicted_result self image_tensor (h, w) (vr_label_names self))
                 (\<lambda>result_img.
               pbind (plift (draw_teacher_bboxes env self result_img teacher_bboxes)) (\<lambda>img.
               imwrite env (vr_out_dir self @ ''/result_'' @ str_int (epoch + 1) @ ''.png'')
                 img)))))))"

text \<open>
  \<^verbatim>\<open>
  class ModelCheckout:
      def __init__(self, model: BaseModel, our_dir: str, per_epoch: int = 5):
          ...
      def __call__(self, epoch: int):
          if (epoch + 1) % self._per_epoch != 0:
              return
          self._model.save_weight(str(self._out_dir.joinpath(
              f"{self._model.__class__.__name__}_ep{epoch + 1}.pth")))
  \<close>
\<close>

record ('w, 'tn, 'arr, 'cfg) ModelCheckout =
  mc_per_epoch :: int
  mc_out_dir :: string
  mc_model :: "('w, 'tn, 'arr, 'cfg) BaseModel"

definition ModelCheckout_call ::
  "('w, 'tn, 'img, 'arr) callback_env \<Rightarrow> ('w, 'tn, 'arr, 'cfg) ModelCheckout
     \<Rightarrow> int \<Rightarrow> ('w, unit) proc" where
  "ModelCheckout_call env self epoch =
     pbind (plift (py_mod (epoch + 1) (mc_per_epoch self))) (\<lambda>r.
       if r \<noteq> 0 then preturn ()
       else
         save_weight (mc_model self)
           (joinpath env (mc_out_dir self)
              (class_name (mc_model self) @ ''_ep'' @ str_int (epoch + 1) @ ''.pth'')))"

subsection \<open>Example objects\<close>

text \<open>
  A world that is the list of the paths written so far, library calls that write by
  appending the path, and one callback of each class with \<^verbatim>\<open>per_epoch = 5\<close>.
\<close>

definition example_callback_env :: "(string list, nat, nat, nat) callback_env" where
  "example_callback_env =
     \<lparr>randint = (\<lambda>low high. if low < high then preturn low else plift (Inl ValueError)),
      shape = (\<lambda>_. [3, 2, 2]),
      image_save = (\<lambda>img path w. (w @ [path], Inr ())),
      view_cuda = (\<lambda>t shp. preturn t),
      argmax_item = (\<lambda>t. int t),
      to_pil_first = (\<lambda>t. t),
      heatmap_savefig = (\<lambda>t path w. (w @ [path], Inr ())),
      imwrite = (\<lambda>path img w. (w @ [path], Inr ())),
      draw_bounding_boxes_with_name_tag = (\<lambda>img _ _ _. img),
      joinpath = (\<lambda>dir name. dir @ ''/'' @ name)\<rparr>"

definition example_segmentation_callback ::
  "(string list, nat, nat, nat) GenerateSegmentationImageCallback" where
  "example_segmentation_callback =
     \<lparr>gs_draw_predicted_result = (\<lambda>t _ _. preturn t), gs_output_dir = ''out'',
      gs_per_epoch = 5, gs_dataset = [(7, 0)], gs_alpha = 150, gs_color_palette = []\<rparr>"

definition example_attention_callback :: "(string list, nat) GenerateAttentionMapCallback" where
  "example_attention_callback =
     \<lparr>ga_out_dir = ''out'', ga_per_epoch = 5, ga_dataset = [(7, 1)],
      ga_model_eval = preturn (), ga_model_forward = (\<lambda>t. preturn (t, t, t))\<rparr>"

definition example_detection_callback ::
  "(string list, nat, nat) VisualizeRandomObjectDetectionResult" where
  "example_detection_callback =
     \<lparr>vr_draw_predicted_result = (\<lambda>t _ _. preturn t), vr_dataset = [(Tensor 7, None)],
      vr_pred_color = (0, 0, 255), vr_teacher_color = (0, 255, 0), vr_per_epoch = 5,
      vr_out_dir = ''out'', vr_img_size = (2, 2), vr_label_names = []\<rparr>"

definition example_checkout :: "(string list, nat, nat, unit) ModelCheckout" where
  "example_checkout =
     \<lparr>mc_per_epoch = 5, mc_out_dir = ''out'',
      mc_model = \<lparr>class_name = ''EfficientNet'', train_batch = (\<lambda>_ _. preturn 0),
                   predict = (\<lambda>x. preturn x), save_weight = (\<lambda>path w. (w @ [path], Inr ())),
                   get_model_config = preturn ()\<rparr>\<rparr>"

section \<open>classifier/efficientnet/efficientnet.py\<close>

text \<open>
  The torch objects the adapter holds. A tensor is its shape and its elements, of an
  unspecified element type. A module (\<^verbatim>\<open>EfficientNetPredictor\<close>) has the architecture
  \<^verbatim>\<open>from_name\<close> built it for (network name and class count), its named parameters and
  buffers (what \<^verbatim>\<open>state_dict()\<close> returns) and its train/eval mode. An optimizer is what
  its \<^verbatim>\<open>state_dict()\<close> returns: the per-parameter state and, for each parameter
  group, its hyperparameters and its number of parameters.
\<close>

type_synonym 'a tensor = "nat list \<times> 'a list"

record 'a module =
  arch :: "string \<times> int"
  parameters :: "string \<rightharpoonup> 'a tensor"
  training :: bool

record ('a, 'h) optimizer_state =
  opt_state :: "nat \<rightharpoonup> 'a tensor"
  param_groups :: "('h \<times> nat) list"

text \<open>
  \<^verbatim>\<open>Module.load_state_dict\<close> (strict): every parameter whose name is in the given
  dict with the same shape is overwritten; then a missing name, an unexpected name or a
  shape mismatch raises \<^verbatim>\<open>RuntimeError\<close>.
\<close>

definition module_load_state_dict ::
  "(string \<rightharpoonup> 'a tensor) \<Rightarrow> 'a module \<Rightarrow> 'a module \<times> (error + unit)" where
  "module_load_state_dict sd m =
     (m\<lparr>parameters := (\<lambda>k.
          case parameters m k of
            None \<Rightarrow> None
          | Some t \<Rightarrow>
              (case sd k of
                 None \<Rightarrow> Some t
               | Some t' \<Rightarrow> if fst t' = fst t then Some t' else Some t))\<rparr>,
      if map_option fst \<circ> sd = map_option fst \<circ> parameters m then Inr ()
      else Inl RuntimeError)"

text \<open>
  \<^verbatim>\<open>Optimizer.load_state_dict\<close>: a different number of parameter groups, or a group
  of a different size, raises \<^verbatim>\<open>ValueError\<close> before anything is changed; otherwise
  the state and the groups are replaced.
\<close>

definition optimizer_load_state_dict ::
  "('a, 'h) optimizer_state \<Rightarrow> ('a, 'h) optimizer_state
     \<Rightarrow> ('a, 'h) optimizer_state \<times> (error + unit)" where
  "optimizer_load_state_dict sd opt =
     (if map snd (param_groups sd) = map snd (param_groups opt) then (sd, Inr ())
      else (opt, Inl ValueError))"

text \<open>
  The dict that \<^verbatim>\<open>save_weight\<close> writes, with its four keys, and the world of the
  adapter: the files (a file holds a pickled checkpoint or something else) and the lines
  printed. \<^verbatim>\<open>torch.save\<close> writes the file at the path, replacing what was there;
  \<^verbatim>\<open>torch.load\<close> raises on a missing file and on a file that is no checkpoint.
\<close>

record ('a, 'h) checkpoint =
  num_class :: int
  network :: string
  state_dict :: "string \<rightharpoonup> 'a tensor"
  optimizer :: "('a, 'h) optimizer_state"

datatype ('a, 'h) file_content = Checkpoint_file "('a, 'h) checkpoint" | Other_file

record ('a, 'h) world =
  files :: "string \<rightharpoonup> ('a, 'h) file_content"
  stdout :: "string list"

definition torch_save :: "('a, 'h) checkpoint \<Rightarrow> string \<Rightarrow> ('a, 'h) world \<Rightarrow> ('a, 'h) world" where
  "torch_save obj path w = w\<lparr>files := (files w)(path \<mapsto> Checkpoint_file obj)\<rparr>"

definition torch_load :: "string \<Rightarrow> ('a, 'h) world \<Rightarrow> error + ('a, 'h) checkpoint" where
  "torch_load path w =
     (case files w path of
        None \<Rightarrow> Inl FileNotFoundError
      | Some Other_file \<Rightarrow> Inl UnpicklingError
      | Some (Checkpoint_file obj) \<Rightarrow> Inr obj)"

definition py_print :: "string \<Rightarrow> ('a, 'h) world \<Rightarrow> ('a, 'h) world" where
  "py_print msg w = w\<lparr>stdout := stdout w @ [msg]\<rparr>"

text \<open>
  The adapter, with the attributes \<^verbatim>\<open>_num_classes\<close>, \<^verbatim>\<open>_model\<close>, \<^verbatim>\<open>_network\<close> and
  \<^verbatim>\<open>_optimizer\<close> (the loss \<^verbatim>\<open>_criterion\<close> has no state), and the network
  computations of \<^verbatim>\<open>predict\<close>, which are parameters of the model:
  \<^verbatim>\<open>try_cuda(inputs).float()\<close>, the forward pass of the module, \<^verbatim>\<open>nn.Softmax(dim=1)\<close>
  and \<^verbatim>\<open>.cpu().numpy()\<close>.
\<close>

record ('a, 'h) EfficientNet =
  self_num_classes :: int
  self_model :: "'a module"
  self_network :: string
  self_optimizer :: "('a, 'h) optimizer_state"

record ('a, 'inp, 'out, 'arr) torch_env =
  try_cuda_float :: "'inp \<Rightarrow> 'inp"
  forward :: "'a module \<Rightarrow> 'inp \<Rightarrow> 'out"
  softmax_dim1 :: "'out \<Rightarrow> 'out"
  cpu_numpy :: "'out \<Rightarrow> 'arr"

text \<open>
  \<^verbatim>\<open>
  def predict(self, inputs):
      self._model.eval()
      with torch.no_grad():
          inputs = try_cuda(inputs).float()
          output = nn.Softmax(dim=1)(self._model(inputs))
          pred_ids = output.cpu().numpy()
      return pred_ids
  \<close>
\<close>

definition EfficientNet_predict ::
  "('a, 'inp, 'out, 'arr) torch_env \<Rightarrow> ('a, 'h) EfficientNet \<Rightarrow> 'inp
     \<Rightarrow> ('a, 'h) EfficientNet \<times> 'arr" where
  "EfficientNet_predict env self inputs =
     (let self = self\<lparr>self_model := (self_model self)\<lparr>training := False\<rparr>\<rparr>;
          inputs = try_cuda_float env inputs;
          output = softmax_dim1 env (forward env (self_model self) inputs);
          pred_ids = cpu_numpy env output
      in (self, pred_ids))"

text \<open>
  \<^verbatim>\<open>
  def save_weight(self, save_path):
      dict_to_save = {
          'num_class': self._num_classes,
          'network': self._network,
          'state_dict': self._model.state_dict(),
          'optimizer': self._optimizer.state_dict(),
      }
      torch.save(dict_to_save, save_path)
  \<close>
\<close>

definition EfficientNet_save_weight ::
  "('a, 'h) EfficientNet \<Rightarrow> string \<Rightarrow> ('a, 'h) world \<Rightarrow> ('a, 'h) world" where
  "EfficientNet_save_weight self save_path w =
     (let dict_to_save =
            \<lparr>num_class = self_num_classes self,
             network = self_network self,
             state_dict = parameters (self_model self),
             optimizer = self_optimizer self\<rparr>
      in torch_save dict_to_save save_path w)"

text \<open>
  \<^verbatim>\<open>
  def load_weight(self, weight_path):
      params = torch.load(weight_path)
      print('The pretrained weight is loaded')
      print('Num classes: {}'.format(params['num_class']))
      self._num_classes = params['num_class']
      self._model.load_state_dict(params['state_dict'])
      self._optimizer.load_state_dict(params['optimizer'])
      self._network = params['network']
      return self
  \<close>
  The state is the adapter and the world; the adapter returned is the one in the state.
\<close>

definition EfficientNet_load_weight ::
  "('a, 'h) EfficientNet \<Rightarrow> string \<Rightarrow> ('a, 'h) world
     \<Rightarrow> (('a, 'h) EfficientNet \<times> ('a, 'h) world) \<times> (error + unit)" where
  "EfficientNet_load_weight self weight_path w =
     (case torch_load weight_path w of
        Inl e \<Rightarrow> ((self, w), Inl e)
      | Inr params \<Rightarrow>
          (let w = py_print ''The pretrained weight is loaded'' w;
               w = py_print (''Num classes: '' @ str_int (num_class params)) w;
               self = self\<lparr>self_num_classes := num_class params\<rparr>
           in case module_load_state_dict (state_dict params) (self_model self) of
                (m, Inl e) \<Rightarrow> ((self\<lparr>self_model := m\<rparr>, w), Inl e)
              | (m, Inr _) \<Rightarrow>
                  (let self = self\<lparr>self_model := m\<rparr>
                   in case optimizer_load_state_dict (optimizer params) (self_optimizer self) of
                        (opt, Inl e) \<Rightarrow> ((self\<lparr>self_optimizer := opt\<rparr>, w), Inl e)
                      | (opt, Inr _) \<Rightarrow>
                          ((self\<lparr>self_optimizer := opt, self_network := network params\<rparr>, w),
                           Inr ()))))"

text \<open>
  Two adapters are of the same architecture and class count when their modules were
  built for the same network and class count, their parameters have the same names and
  shapes, and their optimizers have parameter groups of the same sizes.
\<close>

definition same_architecture :: "('a, 'h) EfficientNet \<Rightarrow> ('a, 'h) EfficientNet \<Rightarrow> bool" where
  "same_architecture a b \<longleftrightarrow>
     arch (self_model a) = arch (self_model b) \<and>
     map_option fst \<circ> parameters (self_model a) = map_option fst \<circ> parameters (self_model b) \<and>
     map snd (param_groups (self_optimizer a)) = map snd (param_groups (self_optimizer b))"

text \<open>
  Example adapters of one architecture with a single parameter tensor of two elements
  (integers stand for the element type): one after training, one newly built; and
  network computations for them.
\<close>

definition example_trained :: "(int, unit) EfficientNet" where
  "example_trained =
     \<lparr>self_num_classes = 2,
      self_model = \<lparr>arch = (''efficientnet-b0'', 2),
                    parameters = [''_fc.weight'' \<mapsto> ([2], [3, - 1])],
                    training = True\<rparr>,
      self_network = ''efficientnet-b0'',
      self_optimizer = \<lparr>opt_state = [0 \<mapsto> ([2], [1, 1])], param_groups = [((), 1)]\<rparr>\<rparr>"

definition example_fresh :: "(int, unit) EfficientNet" where
  "example_fresh =
     \<lparr>self_num_classes = 2,
      self_model = \<lparr>arch = (''efficientnet-b0'', 2),
                    parameters = [''_fc.weight'' \<mapsto> ([2], [0, 0])],
                    training = True\<rparr>,
      self_network = ''efficientnet-b0'',
      self_optimizer = \<lparr>opt_state = Map.empty, param_groups = [((), 1)]\<rparr>\<rparr>"

definition example_torch_env :: "(int, int, int list, int list) torch_env" where
  "example_torch_env =
     \<lparr>try_cuda_float = (\<lambda>x. x),
      forward = (\<lambda>m x. case parameters m ''_fc.weight'' of
                          None \<Rightarrow> []
                        | Some t \<Rightarrow> map (\<lambda>v. v * x) (snd t)),
      softmax_dim1 = (\<lambda>out. out),
      cpu_numpy = (\<lambda>out. out)\<rparr>"

section \<open>trainer/xtrainer.py\<close>

text \<open>
  Modelled from the spec: \<^verbatim>\<open>LearningTable\<close> and \<^verbatim>\<open>AssembleModel\<close> (deepext/assemble
  is not among the sources). A learning table binds a data loader, an epoch count and an
  optional list of callbacks; an assemble model is a list of model adapters with a
  \<^verbatim>\<open>predict\<close> of its own. A \<^verbatim>\<open>DataLoader\<close> is the list of the (input, teacher)
  batches that one pass over it yields. A metric function is a callable with a
  \<^verbatim>\<open>__name__\<close>.
\<close>

record ('w, 'tn) LearningTable =
  data_loader :: "('tn \<times> 'tn) list"
  epochs :: int
  callbacks :: "(int \<Rightarrow> ('w, unit) proc) list option"

record ('w, 'tn, 'arr, 'cfg) AssembleModel =
  model_list :: "('w, 'tn, 'arr, 'cfg) BaseModel list"
  assemble_predict :: "'tn \<Rightarrow> ('w, 'arr) proc"

record ('w, 'arr) metric_func =
  metric_name :: string
  metric_call :: "'arr \<Rightarrow> 'arr \<Rightarrow> ('w, real) proc"

text \<open>
  The three lines the trainer prints, with the values their f-strings interpolate, and
  the library calls of the trainer: \<^verbatim>\<open>try_cuda\<close> of tensor_util,
  \<^verbatim>\<open>teacher.numpy()\<close> and \<^verbatim>\<open>print\<close>.
\<close>

datatype 'cfg line =
  Start_training nat 'cfg
  | Epoch_report int int real "(string \<times> real) list"
  | Total_metrics "(string \<times> real) list"

record ('w, 'tn, 'arr, 'cfg) trainer_env =
  try_cuda :: "'tn \<Rightarrow> 'tn"
  numpy :: "'tn \<Rightarrow> 'arr"
  print :: "'cfg line \<Rightarrow> 'w \<Rightarrow> 'w"

text \<open>
  \<^verbatim>\<open>statistics.mean\<close>: the arithmetic mean of the data; it raises
  \<^verbatim>\<open>StatisticsError\<close> on empty data.
\<close>

definition mean :: "real list \<Rightarrow> error + real" where
  "mean xs = (if xs = [] then Inl StatisticsError else Inr (sum_list xs / real (length xs)))"

record ('w, 'tn, 'arr, 'cfg) XTrainer =
  assemble_model :: "('w, 'tn, 'arr, 'cfg) AssembleModel"

text \<open>
  \<^verbatim>\<open>
  def train_epoch(self, model: BaseModel, data_loader: DataLoader) -> float:
      loss_list = []
      for train_x, teacher in data_loader:
          train_x = try_cuda(train_x)
          teacher = try_cuda(teacher)
          loss = model.train_batch(train_x, teacher)
          loss_list.append(loss)
      return mean(loss_list)
  \<close>
\<close>

fun train_epoch_loop ::
  "('w, 'tn, 'arr, 'cfg) trainer_env \<Rightarrow> ('w, 'tn, 'arr, 'cfg) BaseModel
     \<Rightarrow> ('tn \<times> 'tn) list \<Rightarrow> real list \<Rightarrow> ('w, real list) proc" where
  "train_epoch_loop env model [] loss_list w = (w, Inr loss_list)"
| "train_epoch_loop env model ((train_x, teacher) # rest) loss_list w =
     (case train_batch model (try_cuda env train_x) (try_cuda env teacher) w of
        (w', Inl e) \<Rightarrow> (w', Inl e)
      | (w', Inr loss) \<Rightarrow> train_epoch_loop env model rest (loss_list @ [loss]) w')"

definition train_epoch ::
  "('w, 'tn, 'arr, 'cfg) trainer_env \<Rightarrow> ('w, 'tn, 'arr, 'cfg) BaseModel
     \<Rightarrow> ('tn \<times> 'tn) list \<Rightarrow> ('w, real) proc" where
  "train_epoch env model loader =
     pbind (train_epoch_loop env model loader []) (\<lambda>loss_list. plift (mean loss_list))"

text \<open>
  \<^verbatim>\<open>
  def calc_metric(self, model, data_loader, metric_func) -> float:
      metric_ls = []
      for x, teacher in data_loader:
          result = model.predict(x)
          metric_ls.append(metric_func(result, teacher.numpy()))
      return mean(metric_ls)
  \<close>
  Only \<^verbatim>\<open>predict\<close> of the model is used. The loader is \<^verbatim>\<open>None\<close> when
  \<^verbatim>\<open>fit\<close> was called without one, and iterating \<^verbatim>\<open>None\<close> raises
  \<^verbatim>\<open>TypeError\<close>.
\<close>

fun calc_metric_loop ::
  "('w, 'tn, 'arr, 'cfg) trainer_env \<Rightarrow> ('tn \<Rightarrow> ('w, 'arr) proc) \<Rightarrow> ('w, 'arr) metric_func
     \<Rightarrow> ('tn \<times> 'tn) list \<Rightarrow> real list \<Rightarrow> ('w, real list) proc" where
  "calc_metric_loop env model_predict mf [] metric_ls w = (w, Inr metric_ls)"
| "calc_metric_loop env model_predict mf ((x, teacher) # rest) metric_ls w =
     (case model_predict x w of
        (w1, Inl e) \<Rightarrow> (w1, Inl e)
      | (w1, Inr result) \<Rightarrow>
          (case metric_call mf result (numpy env teacher) w1 of
             (w2, Inl e) \<Rightarrow> (w2, Inl e)
           | (w2, Inr v) \<Rightarrow> calc_metric_loop env model_predict mf rest (metric_ls @ [v]) w2))"

definition calc_metric ::
  "('w, 'tn, 'arr, 'cfg) trainer_env \<Rightarrow> ('tn \<Rightarrow> ('w, 'arr) proc) \<Rightarrow> ('tn \<times> 'tn) list option
     \<Rightarrow> ('w, 'arr) metric_func \<Rightarrow> ('w, real) proc" where
  "calc_metric env model_predict loader mf =
     (case loader of
        None \<Rightarrow> plift (Inl TypeError)
      | Some batches \<Rightarrow>
          pbind (calc_metric_loop env model_predict mf batches [])
            (\<lambda>metric_ls. plift (mean metric_ls)))"

text \<open>
  The loop over the metric functions, as in \<^verbatim>\<open>train_one_model\<close> and at the end of
  \<^verbatim>\<open>fit\<close>:
  \<^verbatim>\<open>
  metric_str = ""
  for metric_func in metric_func_ls:
      metric = self.calc_metric(model, test_dataloader, metric_func)
      metric_str += f"{metric_func.__name__}: {metric} "
  \<close>
  The string is kept as the list of its (name, metric) entries.
\<close>

fun metrics_loop ::
  "('w, 'tn, 'arr, 'cfg) trainer_env \<Rightarrow> ('tn \<Rightarrow> ('w, 'arr) proc) \<Rightarrow> ('tn \<times> 'tn) list option
     \<Rightarrow> ('w, 'arr) metric_func list \<Rightarrow> (string \<times> real) list
     \<Rightarrow> ('w, (string \<times> real) list) proc" where
  "metrics_loop env model_predict test_dataloader [] metric_str w = (w, Inr metric_str)"
| "metrics_loop env model_predict test_dataloader (mf # rest) metric_str w =
     (case calc_metric env model_predict test_dataloader mf w of
        (w', Inl e) \<Rightarrow> (w', Inl e)
      | (w', Inr metric) \<Rightarrow>
          metrics_loop env model_predict test_dataloader rest
            (metric_str @ [(metric_name mf, metric)]) w')"

text \<open>
  \<^verbatim>\<open>
  def train_one_model(self, model, learning_table, test_dataloader, metric_func_ls):
      for epoch in range(learning_table.epochs):
          mean_loss = self.train_epoch(model, learning_table.data_loader)
          metric_str = ""
          for metric_func in metric_func_ls:
              ...
          print(f"epoch {epoch + 1} / {learning_table.epochs} --- loss: {mean_loss},  {metric_str}")
          callbacks = learning_table.callbacks or []
          for callback in callbacks:
              callback(epoch)
  \<close>
\<close>

fun callbacks_loop :: "(int \<Rightarrow> ('w, unit) proc) list \<Rightarrow> int \<Rightarrow> ('w, unit) proc" where
  "callbacks_loop [] epoch w = (w, Inr ())"
| "callbacks_loop (callback # rest) epoch w =
     (case callback epoch w of
        (w', Inl e) \<Rightarrow> (w', Inl e)
      | (w', Inr _) \<Rightarrow> callbacks_loop rest epoch w')"

fun train_one_model_loop ::
  "('w, 'tn, 'arr, 'cfg) trainer_env \<Rightarrow> ('w, 'tn, 'arr, 'cfg) BaseModel
     \<Rightarrow> ('w, 'tn) LearningTable \<Rightarrow> ('tn \<times> 'tn) list option \<Rightarrow> ('w, 'arr) metric_func list
     \<Rightarrow> int list \<Rightarrow> ('w, unit) proc" where
  "train_one_model_loop env model learning_table test_dataloader metric_func_ls [] w =
     (w, Inr ())"
| "train_one_model_loop env model learning_table test_dataloader metric_func_ls (epoch # rest) w =
     (case train_epoch env model (data_loader learning_table) w of
        (w1, Inl e) \<Rightarrow> (w1, Inl e)
      | (w1, Inr mean_loss) \<Rightarrow>
          (case metrics_loop env (predict model) test_dataloader metric_func_ls [] w1 of
             (w2, Inl e) \<Rightarrow> (w2, Inl e)
           | (w2, Inr metric_str) \<Rightarrow>
               (let w3 = print env
                           (Epoch_report (epoch + 1) (epochs learning_table) mean_loss metric_str) w2;
                    cbs = (case callbacks learning_table of None \<Rightarrow> [] | Some cs \<Rightarrow> cs)
                in case callbacks_loop cbs epoch w3 of
                     (w4, Inl e) \<Rightarrow> (w4, Inl e)
                   | (w4, Inr _) \<Rightarrow>
                       train_one_model_loop env model learning_table test_dataloader
                         metric_func_ls rest w4)))"

definition train_one_model ::
  "('w, 'tn, 'arr, 'cfg) trainer_env \<Rightarrow> ('w, 'tn, 'arr, 'cfg) BaseModel
     \<Rightarrow> ('w, 'tn) LearningTable \<Rightarrow> ('tn \<times> 'tn) list option \<Rightarrow> ('w, 'arr) metric_func list
     \<Rightarrow> ('w, unit) proc" where
  "train_one_model env model learning_table test_dataloader metric_func_ls =
     train_one_model_loop env model learning_table test_dataloader metric_func_ls
       [0 .. epochs learning_table - 1]"

text \<open>
  \<^verbatim>\<open>
  def fit(self, learning_tables, metric_func_ls=None, test_dataloader=None):
      assert len(learning_tables) == len(self._assemble_model.model_list)
      metric_func_ls = metric_func_ls or []
      for i in range(len(learning_tables)):
          learning_table = learning_tables[i]
          model = self._assemble_model.model_list[i]
          print(f"\n\nStart training model_{i}: {model.get_model_config()} \n\n")
          self.train_one_model(model, learning_table, test_dataloader, metric_func_ls)
      total_metric_str = ""
      for metric_func in metric_func_ls:
          metric = self.calc_metric(self._assemble_model, test_dataloader, metric_func)
          total_metric_str += f"{metric_func.__name__}: {metric} "
      print(f"\n\n\nTotal metrics  :  {total_metric_str}\n\n")
  \<close>
  The indices of the loop are below both lengths once the assertion has passed.
\<close>

fun fit_loop ::
  "('w, 'tn, 'arr, 'cfg) trainer_env \<Rightarrow> ('w, 'tn, 'arr, 'cfg) XTrainer
     \<Rightarrow> ('w, 'tn) LearningTable list \<Rightarrow> ('tn \<times> 'tn) list option \<Rightarrow> ('w, 'arr) metric_func list
     \<Rightarrow> nat list \<Rightarrow> ('w, unit) proc" where
  "fit_loop env self learning_tables test_dataloader metric_func_ls [] w = (w, Inr ())"
| "fit_loop env self learning_tables test_dataloader metric_func_ls (i # rest) w =
     (let learning_table = learning_tables ! i;
          model = model_list (assemble_model self) ! i
      in case get_model_config model w of
           (w1, Inl e) \<Rightarrow> (w1, Inl e)
         | (w1, Inr config) \<Rightarrow>
             (case train_one_model env model learning_table test_dataloader metric_func_ls
                     (print env (Start_training i config) w1) of
                (w2, Inl e) \<Rightarrow> (w2, Inl e)
              | (w2, Inr _) \<Rightarrow>
                  fit_loop env self learning_tables test_dataloader metric_func_ls rest w2))"

definition fit ::
  "('w, 'tn, 'arr, 'cfg) trainer_env \<Rightarrow> ('w, 'tn, 'arr, 'cfg) XTrainer
     \<Rightarrow> ('w, 'tn) LearningTable list \<Rightarrow> ('w, 'arr) metric_func list option
     \<Rightarrow> ('tn \<times> 'tn) list option \<Rightarrow> ('w, unit) proc" where
  "fit env self learning_tables metric_func_ls test_dataloader w =
     (if length learning_tables \<noteq> length (model_list (assemble_model self))
      then (w, Inl AssertionError)
      else
        let metric_func_ls = (case metric_func_ls of None \<Rightarrow> [] | Some fs \<Rightarrow> fs)
        in case fit_loop env self learning_tables test_dataloader metric_func_ls
                  [0 ..< length learning_tables] w of
             (w1, Inl e) \<Rightarrow> (w1, Inl e)
           | (w1, Inr _) \<Rightarrow>
               (case metrics_loop env (assemble_predict (assemble_model self)) test_dataloader
                       metric_func_ls [] w1 of
                  (w2, Inl e) \<Rightarrow> (w2, Inl e)
                | (w2, Inr total_metric_str) \<Rightarrow>
                    (print env (Total_metrics total_metric_str) w2, Inr ())))"

section \<open>Observing the calls of the trainer\<close>

text \<open>
  To state which calls a run makes and in which order, the world is paired with a trace.
  The model, the metric functions and the callbacks below are arbitrary functions on an
  arbitrary state \<open>'s\<close> that return normally; each call also appends one event to the
  trace. \<^verbatim>\<open>print\<close> acts on the state alone.
\<close>

datatype 'tn event =
  Train_batch_called 'tn 'tn
  | Predict_called 'tn
  | Metric_called string
  | Callback_called nat int

definition logged_model ::
  "('tn \<Rightarrow> 'tn \<Rightarrow> 's \<Rightarrow> 's \<times> real) \<Rightarrow> ('tn \<Rightarrow> 's \<Rightarrow> 's \<times> 'arr) \<Rightarrow> 'cfg
     \<Rightarrow> ('s \<times> 'tn event list, 'tn, 'arr, 'cfg) BaseModel" where
  "logged_model tb pr cfg =
     \<lparr>class_name = ''Model'',
      train_batch = (\<lambda>x t (s, trace).
        case tb x t s of (s', loss) \<Rightarrow> ((s', trace @ [Train_batch_called x t]), Inr loss)),
      predict = (\<lambda>x (s, trace).
        case pr x s of (s', y) \<Rightarrow> ((s', trace @ [Predict_called x]), Inr y)),
      save_weight = (\<lambda>path. preturn ()),
      get_model_config = preturn cfg\<rparr>"

definition logged_metric ::
  "string \<times> ('arr \<Rightarrow> 'arr \<Rightarrow> 's \<Rightarrow> 's \<times> real) \<Rightarrow> ('s \<times> 'tn event list, 'arr) metric_func" where
  "logged_metric nf =
     \<lparr>metric_name = fst nf,
      metric_call = (\<lambda>result teacher (s, trace).
        case snd nf result teacher s of (s', v) \<Rightarrow> ((s', trace @ [Metric_called (fst nf)]), Inr v))\<rparr>"

definition logged_callback ::
  "nat \<times> (int \<Rightarrow> 's \<Rightarrow> 's) \<Rightarrow> int \<Rightarrow> ('s \<times> 'tn event list, unit) proc" where
  "logged_callback icb epoch =
     (\<lambda>(s, trace). ((snd icb epoch s, trace @ [Callback_called (fst icb) epoch]), Inr ()))"

definition logged_callbacks ::
  "(int \<Rightarrow> 's \<Rightarrow> 's) list \<Rightarrow> (int \<Rightarrow> ('s \<times> 'tn event list, unit) proc) list" where
  "logged_callbacks cbs = map logged_callback (enumerate 0 cbs)"

definition logged_env ::
  "('tn \<Rightarrow> 'tn) \<Rightarrow> ('tn \<Rightarrow> 'arr) \<Rightarrow> ('cfg line \<Rightarrow> 's \<Rightarrow> 's)
     \<Rightarrow> ('s \<times> 'tn event list, 'tn, 'arr, 'cfg) trainer_env" where
  "logged_env cuda np pr =
     \<lparr>try_cuda = cuda, numpy = np, print = (\<lambda>msg (s, trace). (pr msg s, trace))\<rparr>"

text \<open>
  What a pass over the batches is to do: the state after training on each batch in turn,
  and the loss of each batch.
\<close>

fun final_state :: "('tn \<Rightarrow> 'tn \<Rightarrow> 's \<Rightarrow> 's \<times> real) \<Rightarrow> 's \<Rightarrow> ('tn \<times> 'tn) list \<Rightarrow> 's" where
  "final_state tb s [] = s"
| "final_state tb s ((x, t) # rest) = final_state tb (fst (tb x t s)) rest"

fun batch_losses :: "('tn \<Rightarrow> 'tn \<Rightarrow> 's \<Rightarrow> 's \<times> real) \<Rightarrow> 's \<Rightarrow> ('tn \<times> 'tn) list \<Rightarrow> real list" where
  "batch_losses tb s [] = []"
| "batch_losses tb s ((x, t) # rest) = snd (tb x t s) # batch_losses tb (fst (tb x t s)) rest"

text \<open>
  The events of one epoch, in the order the spec gives: one \<^verbatim>\<open>train_batch\<close> per
  training batch, then for each metric function one \<^verbatim>\<open>predict\<close> and one metric call
  per test batch, then every callback, in registration order, with the epoch index.
\<close>

definition epoch_events ::
  "('tn \<Rightarrow> 'tn) \<Rightarrow> ('tn \<times> 'tn) list \<Rightarrow> ('tn \<times> 'tn) list \<Rightarrow> string list \<Rightarrow> nat \<Rightarrow> int
     \<Rightarrow> 'tn event list" where
  "epoch_events cuda train_batches test_batches metric_names n_callbacks epoch =
     map (\<lambda>(x, t). Train_batch_called (cuda x) (cuda t)) train_batches
     @ concat (map (\<lambda>name. concat (map (\<lambda>(x, t). [Predict_called x, Metric_called name])
                                       test_batches)) metric_names)
     @ map (\<lambda>i. Callback_called i epoch) [0 ..< n_callbacks]"

section \<open>Properties of the schedulers\<close>










text \<open>
  C7. The warm-up scheduler returns \<open>warmup_lr\<close> for an epoch below \<open>warmup_epochs\<close>
  and \<open>lr\<close> for every other epoch.
\<close>

theorem WarmUpLRScheduler_call_value:
  "(epoch < warmup_epochs self \<longrightarrow> WarmUpLRScheduler_call self epoch = warmup_lr self) \<and>
   (\<not> epoch < warmup_epochs self \<longrightarrow> WarmUpLRScheduler_call self epoch = lr self)"
  by (simp add: WarmUpLRScheduler_call_def)

text \<open>
  The spec's two values: with \<open>warmup_lr = 0.01\<close>, \<open>lr = 0.0001\<close> and
  \<open>warmup_epochs = 10\<close> the scheduler returns 0.01 at epoch 5 and 0.0001 at epoch 10.
\<close>

theorem WarmUpLRScheduler_call_value_witness:
  "WarmUpLRScheduler_call
     (WarmUpLRScheduler_init (Some (1 / 100)) (Some (1 / 10000)) (Some 10)) 5 = 1 / 100 \<and>
   WarmUpLRScheduler_call
     (WarmUpLRScheduler_init (Some (1 / 100)) (Some (1 / 10000)) (Some 10)) 10 = 1 / 10000"
  using WarmUpLRScheduler_call_value
      [of 5 "WarmUpLRScheduler_init (Some (1 / 100)) (Some (1 / 10000)) (Some 10)"]
    WarmUpLRScheduler_call_value
      [of 10 "WarmUpLRScheduler_init (Some (1 / 100)) (Some (1 / 10000)) (Some 10)"]
  by (simp add: WarmUpLRScheduler_init_def)




section \<open>Properties of the callbacks\<close>

lemma pbind_plift_Inr: "pbind (plift (Inr v)) g w = g v w"
  by (simp add: pbind_def plift_def)

lemma pbind_plift_Inl: "pbind (plift (Inl e)) g w = (w, Inl e)"
  by (simp add: pbind_def plift_def)

text \<open>
  C5. Each of the four periodic callbacks, called at an epoch where
  \<^verbatim>\<open>(epoch + 1) % per_epoch\<close> has a value other than zero, returns at once and leaves
  the world as it was (no file is written, no weight saved, no model or generator state
  touched); and a call that changes the world is a call at an epoch where
  \<^verbatim>\<open>(epoch + 1) % per_epoch\<close> is zero.
\<close>

theorem callbacks_noop_off_period:
  "((\<exists>r. py_mod (epoch + 1) (gs_per_epoch gs) = Inr r \<and> r \<noteq> 0) \<longrightarrow>
      GenerateSegmentationImageCallback_call env gs epoch w = (w, Inr ())) \<and>
   ((\<exists>r. py_mod (epoch + 1) (ga_per_epoch ga) = Inr r \<and> r \<noteq> 0) \<longrightarrow>
      GenerateAttentionMapCallback_call env ga epoch w = (w, Inr ())) \<and>
   ((\<exists>r. py_mod (epoch + 1) (vr_per_epoch vr) = Inr r \<and> r \<noteq> 0) \<longrightarrow>
      VisualizeRandomObjectDetectionResult_call env vr epoch w = (w, Inr ())) \<and>
   ((\<exists>r. py_mod (epoch + 1) (mc_per_epoch mc) = Inr r \<and> r \<noteq> 0) \<longrightarrow>
      ModelCheckout_call env mc epoch w = (w, Inr ())) \<and>
   (fst (GenerateSegmentationImageCallback_call env gs epoch w) \<noteq> w \<longrightarrow>
      py_mod (epoch + 1) (gs_per_epoch gs) = Inr 0) \<and>
   (fst (GenerateAttentionMapCallback_call env ga epoch w) \<noteq> w \<longrightarrow>
      py_mod (epoch + 1) (ga_per_epoch ga) = Inr 0) \<and>
   (fst (VisualizeRandomObjectDetectionResult_call env vr epoch w) \<noteq> w \<longrightarrow>
      py_mod (epoch + 1) (vr_per_epoch vr) = Inr 0) \<and>
   (fst (ModelCheckout_call env mc epoch w) \<noteq> w \<longrightarrow>
      py_mod (epoch + 1) (mc_per_epoch mc) = Inr 0)"
proof -
  have gs: "GenerateSegmentationImageCallback_call env gs epoch w = (w, Inr ())"
    if "py_mod (epoch + 1) (gs_per_epoch gs) = Inr r" "r \<noteq> 0" for r
    using that
    by (simp add: GenerateSegmentationImageCallback_call_def pbind_plift_Inr preturn_def)
  have ga: "GenerateAttentionMapCallback_call env ga epoch w = (w, Inr ())"
    if "py_mod (epoch + 1) (ga_per_epoch ga) = Inr r" "r \<noteq> 0" for r
    using that
    by (simp add: GenerateAttentionMapCallback_call_def pbind_plift_Inr preturn_def)
  have vr: "VisualizeRandomObjectDetectionResult_call env vr epoch w = (w, Inr ())"
    if "py_mod (epoch + 1) (vr_per_epoch vr) = Inr r" "r \<noteq> 0" for r
    using that
    by (simp add: VisualizeRandomObjectDetectionResult_call_def pbind_plift_Inr preturn_def)
  have mc: "ModelCheckout_call env mc epoch w = (w, Inr ())"
    if "py_mod (epoch + 1) (mc_per_epoch mc) = Inr r" "r \<noteq> 0" for r
    using that by (simp add: ModelCheckout_call_def pbind_plift_Inr preturn_def)
  have gs0: "fst (GenerateSegmentationImageCallback_call env gs epoch w) = w"
    if "gs_per_epoch gs = 0"
    using that
    by (simp add: GenerateSegmentationImageCallback_call_def py_mod_def pbind_plift_Inl)
  have ga0: "fst (GenerateAttentionMapCallback_call env ga epoch w) = w"
    if "ga_per_epoch ga = 0"
    using that by (simp add: GenerateAttentionMapCallback_call_def py_mod_def pbind_plift_Inl)
  have vr0: "fst (VisualizeRandomObjectDetectionResult_call env vr epoch w) = w"
    if "vr_per_epoch vr = 0"
    using that
    by (simp add: VisualizeRandomObjectDetectionResult_call_def py_mod_def pbind_plift_Inl)
  have mc0: "fst (ModelCheckout_call env mc epoch w) = w"
    if "mc_per_epoch mc = 0"
    using that by (simp add: ModelCheckout_call_def py_mod_def pbind_plift_Inl)
  have split: "py_mod a b = Inr 0 \<or> b = 0 \<or> (\<exists>r. py_mod a b = Inr r \<and> r \<noteq> 0)" for a b
    by (simp add: py_mod_def)
  show ?thesis
  proof (intro conjI impI)
    show "py_mod (epoch + 1) (gs_per_epoch gs) = Inr 0"
      if "fst (GenerateSegmentationImageCallback_call env gs epoch w) \<noteq> w"
      using that gs gs0 split [of "epoch + 1" "gs_per_epoch gs"] by fastforce
    show "py_mod (epoch + 1) (ga_per_epoch ga) = Inr 0"
      if "fst (GenerateAttentionMapCallback_call env ga epoch w) \<noteq> w"
      using that ga ga0 split [of "epoch + 1" "ga_per_epoch ga"] by fastforce
    show "py_mod (epoch + 1) (vr_per_epoch vr) = Inr 0"
      if "fst (VisualizeRandomObjectDetectionResult_call env vr epoch w) \<noteq> w"
      using that vr vr0 split [of "epoch + 1" "vr_per_epoch vr"] by fastforce
    show "py_mod (epoch + 1) (mc_per_epoch mc) = Inr 0"
      if "fst (ModelCheckout_call env mc epoch w) \<noteq> w"
      using that mc mc0 split [of "epoch + 1" "mc_per_epoch mc"] by fastforce
  qed (use gs ga vr mc in blast)+
qed

text \<open>
  The spec's example, with \<^verbatim>\<open>per_epoch = 5\<close> on a world with no file: the calls at
  epochs 0 to 3 write nothing, and the call at epoch 4 writes one file.
\<close>

theorem callbacks_noop_off_period_witness:
  "ModelCheckout_call example_callback_env example_checkout 0 [] = ([], Inr ()) \<and>
   ModelCheckout_call example_callback_env example_checkout 1 [] = ([], Inr ()) \<and>
   ModelCheckout_call example_callback_env example_checkout 2 [] = ([], Inr ()) \<and>
   ModelCheckout_call example_callback_env example_checkout 3 [] = ([], Inr ()) \<and>
   GenerateSegmentationImageCallback_call example_callback_env example_segmentation_callback
     3 [] = ([], Inr ()) \<and>
   GenerateAttentionMapCallback_call example_callback_env example_attention_callback
     3 [] = ([], Inr ()) \<and>
   VisualizeRandomObjectDetectionResult_call example_callback_env example_detection_callback
     3 [] = ([], Inr ()) \<and>
   ModelCheckout_call example_callback_env example_checkout 4 []
     = ([''out/EfficientNet_ep5.pth''], Inr ()) \<and>
   py_mod (4 + 1) (mc_per_epoch example_checkout) = Inr 0"
proof -
  note inst = callbacks_noop_off_period [where env = example_callback_env
      and gs = example_segmentation_callback and ga = example_attention_callback
      and vr = example_detection_callback and mc = example_checkout and w = "[]"]
  have per: "mc_per_epoch example_checkout = 5" "gs_per_epoch example_segmentation_callback = 5"
    "ga_per_epoch example_attention_callback = 5" "vr_per_epoch example_detection_callback = 5"
    by (simp_all add: example_checkout_def example_segmentation_callback_def
        example_attention_callback_def example_detection_callback_def)
  have fire: "ModelCheckout_call example_callback_env example_checkout 4 []
     = ([''out/EfficientNet_ep5.pth''], Inr ())"
    by (simp add: ModelCheckout_call_def example_checkout_def example_callback_env_def
        py_mod_def pbind_plift_Inr str_int_def str_nat.simps)
  show ?thesis
    using inst [of 0] inst [of 1] inst [of 2] inst [of 3] inst [of 4] fire
    by (simp add: per py_mod_def)
qed

section \<open>Properties of the trainer\<close>

lemma train_epoch_empty: "train_epoch env model [] w = (w, Inl StatisticsError)"
  by (simp add: train_epoch_def pbind_def plift_def mean_def)

lemma upto_from_zero: "0 < n \<Longrightarrow> [0 .. n - 1] = 0 # [1 .. n - 1]"
  by (simp add: upto_rec1)

text \<open>
  C3. On a loader that yields no batch \<^verbatim>\<open>train_epoch\<close> raises \<^verbatim>\<open>StatisticsError\<close>
  and returns no number; the caller \<^verbatim>\<open>train_one_model\<close> does not catch it: with at
  least one epoch to run it ends with the same error, in the world it was called in.
\<close>

theorem train_epoch_empty_loader_fails:
  "train_epoch env model [] w = (w, Inl StatisticsError) \<and>
   (0 < epochs learning_table \<and> data_loader learning_table = [] \<longrightarrow>
      train_one_model env model learning_table test_dataloader metric_func_ls w
        = (w, Inl StatisticsError))"
  by (simp add: train_one_model_def upto_from_zero train_epoch_empty)

text \<open>Three epochs on an empty loader: no call is logged and the error reaches the caller.\<close>

theorem train_epoch_empty_loader_fails_witness:
  "train_one_model (logged_env (\<lambda>x. x) (\<lambda>x. x) (\<lambda>_ s. s))
     (logged_model (\<lambda>x t s. (s + 1, real (x + t))) (\<lambda>x s. (s, x)) ())
     \<lparr>data_loader = [], epochs = 3, callbacks = None\<rparr> None [] (0::nat, [] :: nat event list)
   = ((0, []), Inl StatisticsError)"
  using train_epoch_empty_loader_fails
    [of "logged_env (\<lambda>x. x) (\<lambda>x. x) (\<lambda>_ s. s)"
      "logged_model (\<lambda>x t s. (s + 1, real (x + t))) (\<lambda>x s. (s, x)) ()"
      "(0::nat, [] :: nat event list)"
      "\<lparr>data_loader = [], epochs = 3, callbacks = None\<rparr>" None "[]"]
  by simp

text \<open>
  C4. When the number of learning tables differs from the number of models, \<^verbatim>\<open>fit\<close>
  raises \<^verbatim>\<open>AssertionError\<close> and the world is the one it was called in: no
  \<^verbatim>\<open>train_batch\<close>, callback or metric computation has run.
\<close>

theorem fit_length_mismatch_fails:
  "length learning_tables \<noteq> length (model_list (assemble_model self)) \<Longrightarrow>
     fit env self learning_tables metric_func_ls test_dataloader w = (w, Inl AssertionError)"
  by (simp add: fit_def)

text \<open>The spec's example: two models and one learning table.\<close>

theorem fit_length_mismatch_fails_witness:
  "fit (logged_env (\<lambda>x. x) (\<lambda>x. x) (\<lambda>_ s. s))
     \<lparr>assemble_model =
        \<lparr>model_list =
           [logged_model (\<lambda>x t s. (s + 1, real (x + t))) (\<lambda>x s. (s, x)) (),
            logged_model (\<lambda>x t s. (s + 2, real x)) (\<lambda>x s. (s, x)) ()],
         assemble_predict = (\<lambda>x. preturn x)\<rparr>\<rparr>
     [\<lparr>data_loader = [(1, 2)], epochs = 1, callbacks = None\<rparr>] None None
     (0::nat, [] :: nat event list)
   = ((0, []), Inl AssertionError)"
  by (rule fit_length_mismatch_fails) simp

lemma length_batch_losses: "length (batch_losses tb s bs) = length bs"
  by (induction bs arbitrary: s) auto

lemma train_epoch_loop_logged:
  "train_epoch_loop (logged_env cuda np pr) (logged_model tb prd cfg) bs ls (s, trace) =
     ((final_state tb s (map (\<lambda>(x, t). (cuda x, cuda t)) bs),
       trace @ map (\<lambda>(x, t). Train_batch_called (cuda x) (cuda t)) bs),
      Inr (ls @ batch_losses tb s (map (\<lambda>(x, t). (cuda x, cuda t)) bs)))"
proof (induction bs arbitrary: ls s trace)
  case Nil
  then show ?case by simp
next
  case (Cons b bs)
  obtain x t where b: "b = (x, t)" by (cases b)
  obtain s' loss where step: "tb (cuda x) (cuda t) s = (s', loss)"
    by (cases "tb (cuda x) (cuda t) s")
  show ?case
    using Cons.IH [of "ls @ [loss]" s' "trace @ [Train_batch_called (cuda x) (cuda t)]"]
    by (simp add: b step logged_env_def logged_model_def)
qed

lemma train_epoch_logged:
  assumes "bs \<noteq> []"
  shows "train_epoch (logged_env cuda np pr) (logged_model tb prd cfg) bs (s, trace) =
     ((final_state tb s (map (\<lambda>(x, t). (cuda x, cuda t)) bs),
       trace @ map (\<lambda>(x, t). Train_batch_called (cuda x) (cuda t)) bs),
      Inr (sum_list (batch_losses tb s (map (\<lambda>(x, t). (cuda x, cuda t)) bs))
             / real (length bs)))"
proof -
  have "batch_losses tb s (map (\<lambda>(x, t). (cuda x, cuda t)) bs) \<noteq> []"
    using assms length_batch_losses [of tb s "map (\<lambda>(x, t). (cuda x, cuda t)) bs"]
    by (metis length_0_conv length_map)
  then show ?thesis
    by (simp add: train_epoch_def pbind_def plift_def mean_def train_epoch_loop_logged
        length_batch_losses)
qed

text \<open>
  C2. For a model whose \<^verbatim>\<open>train_batch\<close> returns a loss on every batch and a loader
  with at least one batch, \<^verbatim>\<open>train_epoch\<close> calls \<^verbatim>\<open>train_batch\<close> once per batch
  in loader order (the trace grows by exactly these calls, and the state is the one after
  training on each batch in turn) and returns the sum of the per-batch losses divided by
  the number of batches; on a loader with one batch it returns that batch's loss.
\<close>

theorem train_epoch_mean_of_batch_losses:
  "(bs \<noteq> [] \<longrightarrow>
      train_epoch (logged_env cuda np pr) (logged_model tb prd cfg) bs (s, trace) =
        ((final_state tb s (map (\<lambda>(x, t). (cuda x, cuda t)) bs),
          trace @ map (\<lambda>(x, t). Train_batch_called (cuda x) (cuda t)) bs),
         Inr (sum_list (batch_losses tb s (map (\<lambda>(x, t). (cuda x, cuda t)) bs))
                / real (length bs)))) \<and>
   train_epoch (logged_env cuda np pr) (logged_model tb prd cfg) [(x, t)] (s, trace) =
     ((fst (tb (cuda x) (cuda t) s), trace @ [Train_batch_called (cuda x) (cuda t)]),
      Inr (snd (tb (cuda x) (cuda t) s)))"
  using train_epoch_logged [of bs cuda np pr tb prd cfg s trace]
    train_epoch_logged [of "[(x, t)]" cuda np pr tb prd cfg s trace]
  by simp

text \<open>
  Two batches, with the loss of a batch the sum of its two entries: two calls in loader
  order, and the mean of 3 and 9.
\<close>

theorem train_epoch_mean_of_batch_losses_witness:
  "train_epoch (logged_env (\<lambda>x. x) (\<lambda>x. x) (\<lambda>_ s. s))
     (logged_model (\<lambda>x t s. (s + 1, real (x + t))) (\<lambda>x s. (s, x)) ())
     [(1, 2), (3, 6)] (0::nat, [])
   = ((2, [Train_batch_called (1::nat) 2, Train_batch_called 3 6]), Inr 6)"
  using train_epoch_mean_of_batch_losses
    [where bs = "[(1::nat, 2), (3, 6)]" and cuda = "\<lambda>x. x" and np = "\<lambda>x::nat. x"
      and pr = "\<lambda>(_::unit line) (s::nat). s"
      and tb = "\<lambda>x t (s::nat). (s + 1, real (x + t))" and prd = "\<lambda>(x::nat) (s::nat). (s, x)"
      and cfg = "()" and s = 0 and trace = "[]"]
  by simp

lemma calc_metric_loop_logged:
  "\<exists>s' vs. calc_metric_loop (logged_env cuda np pr) (predict (logged_model tb prd cfg))
       (logged_metric nf) bs ls (s, trace) =
     ((s', trace @ concat (map (\<lambda>(x, t). [Predict_called x, Metric_called (fst nf)]) bs)),
      Inr (ls @ vs)) \<and> length vs = length bs"
proof (induction bs arbitrary: ls s trace)
  case Nil
  then show ?case by simp
next
  case (Cons b bs)
  obtain x t where b: "b = (x, t)" by (cases b)
  obtain s1 y where p: "prd x s = (s1, y)" by (cases "prd x s")
  obtain s2 v where m: "snd nf y (np t) s1 = (s2, v)" by (cases "snd nf y (np t) s1")
  from Cons.IH [of "ls @ [v]" s2 "trace @ [Predict_called x, Metric_called (fst nf)]"]
  obtain s' vs where
    "calc_metric_loop (logged_env cuda np pr) (predict (logged_model tb prd cfg))
       (logged_metric nf) bs (ls @ [v]) (s2, trace @ [Predict_called x, Metric_called (fst nf)]) =
     ((s', (trace @ [Predict_called x, Metric_called (fst nf)])
            @ concat (map (\<lambda>(x, t). [Predict_called x, Metric_called (fst nf)]) bs)),
      Inr ((ls @ [v]) @ vs))" and "length vs = length bs"
    by blast
  then have "calc_metric_loop (logged_env cuda np pr) (predict (logged_model tb prd cfg))
       (logged_metric nf) (b # bs) ls (s, trace) =
     ((s', trace @ concat (map (\<lambda>(x, t). [Predict_called x, Metric_called (fst nf)]) (b # bs))),
      Inr (ls @ (v # vs))) \<and> length (v # vs) = length (b # bs)"
    by (simp add: b p m logged_env_def logged_model_def logged_metric_def)
  then show ?case by blast
qed

lemma calc_metric_logged:
  assumes "bs \<noteq> []"
  shows "\<exists>s' v. calc_metric (logged_env cuda np pr) (predict (logged_model tb prd cfg))
       (Some bs) (logged_metric nf) (s, trace) =
     ((s', trace @ concat (map (\<lambda>(x, t). [Predict_called x, Metric_called (fst nf)]) bs)), Inr v)"
proof -
  from calc_metric_loop_logged [of cuda np pr tb prd cfg nf bs "[]" s trace]
  obtain s' vs where
    loop: "calc_metric_loop (logged_env cuda np pr) (predict (logged_model tb prd cfg))
       (logged_metric nf) bs [] (s, trace) =
     ((s', trace @ concat (map (\<lambda>(x, t). [Predict_called x, Metric_called (fst nf)]) bs)),
      Inr vs)" and len: "length vs = length bs"
    by auto
  from len assms have "vs \<noteq> []" by auto
  then show ?thesis
    by (simp add: calc_metric_def pbind_def plift_def mean_def loop)
qed

lemma metric_name_logged: "metric_name (logged_metric nf) = fst nf"
  by (simp add: logged_metric_def)

lemma metrics_loop_logged:
  assumes "nfs = [] \<or> (\<exists>bs. td = Some bs \<and> bs \<noteq> [])"
  shows "\<exists>s' str. metrics_loop (logged_env cuda np pr) (predict (logged_model tb prd cfg))
       td (map logged_metric nfs) acc (s, trace) =
     ((s', trace @ concat (map (\<lambda>name. concat (map (\<lambda>(x, t). [Predict_called x, Metric_called name])
                                                (case td of None \<Rightarrow> [] | Some bs \<Rightarrow> bs)))
                           (map fst nfs))),
      Inr str)"
  using assms
proof (induction nfs arbitrary: acc s trace)
  case Nil
  then show ?case by simp
next
  case (Cons nf nfs)
  then obtain bs where td: "td = Some bs" and bs: "bs \<noteq> []" by auto
  let ?ev = "\<lambda>name. concat (map (\<lambda>(x, t). [Predict_called x, Metric_called name]) bs)"
  from calc_metric_logged [OF bs, of cuda np pr tb prd cfg nf s trace]
  obtain s1 v where
    cm: "calc_metric (logged_env cuda np pr) (predict (logged_model tb prd cfg))
       (Some bs) (logged_metric nf) (s, trace) = ((s1, trace @ ?ev (fst nf)), Inr v)"
    by blast
  have "nfs = [] \<or> (\<exists>bs. td = Some bs \<and> bs \<noteq> [])"
    using td bs by simp
  from Cons.IH [OF this, of "acc @ [(fst nf, v)]" s1 "trace @ ?ev (fst nf)"]
  obtain s' str where
    rest: "metrics_loop (logged_env cuda np pr) (predict (logged_model tb prd cfg))
       (Some bs) (map logged_metric nfs) (acc @ [(fst nf, v)]) (s1, trace @ ?ev (fst nf)) =
     ((s', (trace @ ?ev (fst nf)) @ concat (map ?ev (map fst nfs))), Inr str)"
    unfolding td by auto
  have "metrics_loop (logged_env cuda np pr) (predict (logged_model tb prd cfg))
       (Some bs) (map logged_metric (nf # nfs)) acc (s, trace) =
     ((s', trace @ concat (map ?ev (map fst (nf # nfs)))), Inr str)"
    by (simp add: cm rest metric_name_logged)
  then show ?case
    unfolding td by auto
qed

lemma logged_callback_step:
  "logged_callback (i, cb) epoch (s, trace) =
     ((cb epoch s, trace @ [Callback_called i epoch]), Inr ())"
  by (simp add: logged_callback_def)

lemma callbacks_loop_logged:
  "\<exists>s'. callbacks_loop (map logged_callback (enumerate n cbs)) epoch (s, trace) =
     ((s', trace @ map (\<lambda>i. Callback_called i epoch) [n ..< n + length cbs]), Inr ())"
proof (induction cbs arbitrary: n s trace)
  case Nil
  then show ?case by simp
next
  case (Cons cb cbs)
  from Cons.IH [of "Suc n" "cb epoch s" "trace @ [Callback_called n epoch]"]
  obtain s' where
    rest: "callbacks_loop (map logged_callback (enumerate (Suc n) cbs)) epoch
       (cb epoch s, trace @ [Callback_called n epoch]) =
     ((s', (trace @ [Callback_called n epoch])
            @ map (\<lambda>i. Callback_called i epoch) [Suc n ..< Suc n + length cbs]), Inr ())"
    by blast
  have range: "[n ..< n + length (cb # cbs)] = n # [Suc n ..< Suc n + length cbs]"
    by (simp add: upt_conv_Cons del: upt_Suc)
  have "callbacks_loop (map logged_callback (enumerate n (cb # cbs))) epoch (s, trace) =
     ((s', trace @ map (\<lambda>i. Callback_called i epoch) [n ..< n + length (cb # cbs)]), Inr ())"
    unfolding range by (simp add: logged_callback_step rest)
  then show ?case by blast
qed

lemma train_one_model_loop_logged:
  assumes "bs \<noteq> []" and "nfs = [] \<or> (\<exists>tbs. td = Some tbs \<and> tbs \<noteq> [])"
    and cbo: "cbo = Some (logged_callbacks cbs) \<or> (cbo = None \<and> cbs = [])"
  shows "\<exists>s'. train_one_model_loop (logged_env cuda np pr) (logged_model tb prd cfg)
       \<lparr>data_loader = bs, epochs = n, callbacks = cbo\<rparr> td (map logged_metric nfs) ks (s, trace) =
     ((s', trace @ concat (map (epoch_events cuda bs (case td of None \<Rightarrow> [] | Some tbs \<Rightarrow> tbs)
                               (map fst nfs) (length cbs)) ks)),
      Inr ())"
proof (induction ks arbitrary: s trace)
  case Nil
  then show ?case by simp
next
  case (Cons k ks)
  let ?env = "logged_env cuda np pr"
  let ?model = "logged_model tb prd cfg"
  let ?e1 = "map (\<lambda>(x, t). Train_batch_called (cuda x) (cuda t)) bs"
  let ?e2 = "concat (map (\<lambda>name. concat (map (\<lambda>(x, t). [Predict_called x, Metric_called name])
                 (case td of None \<Rightarrow> [] | Some tbs \<Rightarrow> tbs))) (map fst nfs))"
  let ?e3 = "map (\<lambda>i. Callback_called i k) [0 ..< length cbs]"
  define s1 where "s1 = final_state tb s (map (\<lambda>(x, t). (cuda x, cuda t)) bs)"
  define mean_loss where
    "mean_loss = sum_list (batch_losses tb s (map (\<lambda>(x, t). (cuda x, cuda t)) bs))
                   / real (length bs)"
  have te: "train_epoch ?env ?model bs (s, trace) = ((s1, trace @ ?e1), Inr mean_loss)"
    using train_epoch_logged [OF assms(1), of cuda np pr tb prd cfg s trace]
    by (simp add: s1_def mean_loss_def)
  from metrics_loop_logged [OF assms(2), of cuda np pr tb prd cfg "[]" s1 "trace @ ?e1"]
  obtain s2 str where
    ml: "metrics_loop ?env (predict ?model) td (map logged_metric nfs) [] (s1, trace @ ?e1) =
           ((s2, (trace @ ?e1) @ ?e2), Inr str)"
    by auto
  define s3 where "s3 = pr (Epoch_report (k + 1) n mean_loss str) s2"
  have pr: "print ?env (Epoch_report (k + 1) n mean_loss str) (s2, (trace @ ?e1) @ ?e2) =
              (s3, (trace @ ?e1) @ ?e2)"
    by (simp add: logged_env_def s3_def)
  have cbs_eq: "(case cbo of None \<Rightarrow> [] | Some cs \<Rightarrow> cs) = map logged_callback (enumerate 0 cbs)"
    using cbo by (auto simp: logged_callbacks_def)
  obtain s4 where
    cl: "callbacks_loop (map logged_callback (enumerate 0 cbs)) k (s3, (trace @ ?e1) @ ?e2) =
           ((s4, ((trace @ ?e1) @ ?e2) @ ?e3), Inr ())"
    using callbacks_loop_logged [of 0 cbs k s3 "(trace @ ?e1) @ ?e2"] by auto
  from Cons.IH [of s4 "((trace @ ?e1) @ ?e2) @ ?e3"]
  obtain s' where
    rest: "train_one_model_loop ?env ?model \<lparr>data_loader = bs, epochs = n, callbacks = cbo\<rparr> td
         (map logged_metric nfs) ks (s4, ((trace @ ?e1) @ ?e2) @ ?e3) =
       ((s', (((trace @ ?e1) @ ?e2) @ ?e3)
              @ concat (map (epoch_events cuda bs (case td of None \<Rightarrow> [] | Some tbs \<Rightarrow> tbs)
                               (map fst nfs) (length cbs)) ks)),
        Inr ())"
    by blast
  have run: "train_one_model_loop ?env ?model \<lparr>data_loader = bs, epochs = n, callbacks = cbo\<rparr> td
         (map logged_metric nfs) (k # ks) (s, trace) =
       ((s', (((trace @ ?e1) @ ?e2) @ ?e3)
              @ concat (map (epoch_events cuda bs (case td of None \<Rightarrow> [] | Some tbs \<Rightarrow> tbs)
                               (map fst nfs) (length cbs)) ks)),
        Inr ())"
    by (simp add: te ml pr cbs_eq cl rest Let_def del: append_assoc map_map)
  have head: "epoch_events cuda bs (case td of None \<Rightarrow> [] | Some tbs \<Rightarrow> tbs) (map fst nfs)
                (length cbs) k = (?e1 @ ?e2) @ ?e3"
    by (simp add: epoch_events_def)
  show ?case
    unfolding run by (simp add: head)
qed

text \<open>
  C9. For a model, metric functions and callbacks that return normally, a training
  loader with at least one batch and (when there are metric functions) a test loader
  with at least one batch, \<^verbatim>\<open>train_one_model\<close> returns, and the calls it made are the
  events of epoch 0, then those of epoch 1, and so on to the last epoch: within each
  epoch the \<^verbatim>\<open>train_batch\<close> calls of \<^verbatim>\<open>train_epoch\<close> come first, then the calls of
  each metric computation, then every callback in registration order with that epoch's
  index, and the first call of the next epoch comes after the last callback of this one.
\<close>

theorem train_one_model_sequential:
  "bs \<noteq> [] \<Longrightarrow> nfs = [] \<or> (\<exists>tbs. td = Some tbs \<and> tbs \<noteq> []) \<Longrightarrow>
   cbo = Some (logged_callbacks cbs) \<or> (cbo = None \<and> cbs = []) \<Longrightarrow>
     \<exists>s'. train_one_model (logged_env cuda np pr) (logged_model tb prd cfg)
            \<lparr>data_loader = bs, epochs = n, callbacks = cbo\<rparr> td (map logged_metric nfs) (s, trace) =
       ((s', trace @ concat (map (epoch_events cuda bs (case td of None \<Rightarrow> [] | Some tbs \<Rightarrow> tbs)
                                 (map fst nfs) (length cbs)) [0 .. n - 1])),
        Inr ())"
  using train_one_model_loop_logged [of bs nfs td cbo cbs cuda np pr tb prd cfg n "[0 .. n - 1]" s trace]
  by (simp add: train_one_model_def)

text \<open>
  Two epochs with one training batch, one test batch, one metric function and two
  callbacks.
\<close>

theorem train_one_model_sequential_witness:
  "\<exists>s'. train_one_model (logged_env (\<lambda>x. x) (\<lambda>x. x) (\<lambda>_ s. s))
     (logged_model (\<lambda>x t s. (s + 1, real (x + t))) (\<lambda>x s. (s, x)) ())
     \<lparr>data_loader = [(1, 2)], epochs = 2,
        callbacks = Some (logged_callbacks [\<lambda>epoch s. s, \<lambda>epoch s. s + 10])\<rparr>
     (Some [(5, 5)]) (map logged_metric [(''accuracy'', \<lambda>result teacher s. (s, 1))])
     (0::nat, [])
   = ((s', [Train_batch_called (1::nat) 2, Predict_called 5, Metric_called ''accuracy'',
            Callback_called 0 0, Callback_called 1 0,
            Train_batch_called 1 2, Predict_called 5, Metric_called ''accuracy'',
            Callback_called 0 1, Callback_called 1 1]),
      Inr ())"
  using train_one_model_sequential
    [where bs = "[(1::nat, 2)]" and n = 2 and td = "Some [(5, 5)]"
      and nfs = "[(''accuracy'', \<lambda>(result::nat) (teacher::nat) (s::nat). (s, 1))]"
      and cbs = "[\<lambda>epoch s. s, \<lambda>epoch (s::nat). s + 10]"
      and cbo = "Some (logged_callbacks [\<lambda>epoch s. s, \<lambda>epoch (s::nat). s + 10])"
      and cuda = "\<lambda>x. x" and np = "\<lambda>x. x" and pr = "\<lambda>(_::unit line) s. s"
      and tb = "\<lambda>x t s. (s + 1, real (x + t))" and prd = "\<lambda>x s. (s, x)" and cfg = "()"
      and s = 0 and trace = "[]"]
  by (simp add: epoch_events_def upto_rec1 [of 0 1])

section \<open>Properties of the model adapter\<close>

lemma module_load_state_dict_same:
  assumes "map_option fst \<circ> sd = map_option fst \<circ> parameters m"
  shows "module_load_state_dict sd m = (m\<lparr>parameters := sd\<rparr>, Inr ())"
proof -
  have "(case parameters m k of
           None \<Rightarrow> None
         | Some t \<Rightarrow>
             (case sd k of
                None \<Rightarrow> Some t
              | Some t' \<Rightarrow> if fst t' = fst t then Some t' else Some t)) = sd k" for k
    using fun_cong [OF assms, of k]
    by (auto split: option.splits)
  then show ?thesis
    using assms by (simp add: module_load_state_dict_def)
qed

lemma torch_load_after_save: "torch_load path (torch_save obj path w) = Inr obj"
  by (simp add: torch_load_def torch_save_def)

text \<open>
  \<^verbatim>\<open>predict\<close> leaves the adapter as it was, but for the mode of its module, which is
  eval afterwards.
\<close>

lemma EfficientNet_predict_frame:
  "fst (EfficientNet_predict env self inputs)
     = self\<lparr>self_model := (self_model self)\<lparr>training := False\<rparr>\<rparr>"
  by (simp add: EfficientNet_predict_def Let_def)

text \<open>
  C1. For every adapter \<open>a\<close>, every path and every world, \<^verbatim>\<open>save_weight(path)\<close> on
  \<open>a\<close> followed by \<^verbatim>\<open>load_weight(path)\<close> on an adapter \<open>fresh\<close> of the same
  architecture and class count succeeds and leaves an adapter whose class count, network
  name, parameter state and optimizer state are those of \<open>a\<close>; \<^verbatim>\<open>predict\<close> then
  returns the same array on both adapters, for every input.
\<close>

theorem save_load_round_trip:
  assumes "same_architecture fresh a"
  shows "\<exists>b w'. EfficientNet_load_weight fresh path (EfficientNet_save_weight a path w)
                  = ((b, w'), Inr ()) \<and>
           self_num_classes b = self_num_classes a \<and>
           self_network b = self_network a \<and>
           parameters (self_model b) = parameters (self_model a) \<and>
           self_optimizer b = self_optimizer a \<and>
           snd (EfficientNet_predict env b inputs) = snd (EfficientNet_predict env a inputs)"
proof -
  define ck where "ck = \<lparr>num_class = self_num_classes a, network = self_network a,
    state_dict = parameters (self_model a), optimizer = self_optimizer a\<rparr>"
  define w' where "w' = py_print (''Num classes: '' @ str_int (self_num_classes a))
    (py_print ''The pretrained weight is loaded'' (torch_save ck path w))"
  define b where "b = fresh\<lparr>self_num_classes := self_num_classes a,
    self_model := (self_model fresh)\<lparr>parameters := parameters (self_model a)\<rparr>,
    self_optimizer := self_optimizer a, self_network := self_network a\<rparr>"
  from assms have ar: "arch (self_model fresh) = arch (self_model a)"
    and sh: "map_option fst \<circ> parameters (self_model a)
               = map_option fst \<circ> parameters (self_model fresh)"
    and gr: "map snd (param_groups (self_optimizer a))
               = map snd (param_groups (self_optimizer fresh))"
    by (simp_all add: same_architecture_def)
  have load: "torch_load path (EfficientNet_save_weight a path w) = Inr ck"
    by (simp add: EfficientNet_save_weight_def ck_def torch_load_after_save)
  have m: "module_load_state_dict (parameters (self_model a)) (self_model fresh)
             = ((self_model fresh)\<lparr>parameters := parameters (self_model a)\<rparr>, Inr ())"
    using sh by (rule module_load_state_dict_same)
  have o: "optimizer_load_state_dict (self_optimizer a) (self_optimizer fresh)
             = (self_optimizer a, Inr ())"
    using gr by (simp add: optimizer_load_state_dict_def)
  have run: "EfficientNet_load_weight fresh path (EfficientNet_save_weight a path w)
               = ((b, w'), Inr ())"
    unfolding EfficientNet_load_weight_def load
    by (simp add: ck_def m o b_def w'_def EfficientNet_save_weight_def)
  have eval_mode: "(self_model b)\<lparr>training := False\<rparr> = (self_model a)\<lparr>training := False\<rparr>"
    using ar by (simp add: b_def)
  have "snd (EfficientNet_predict env b inputs) = snd (EfficientNet_predict env a inputs)"
    by (simp add: EfficientNet_predict_def Let_def eval_mode)
  with run show ?thesis
    by (intro exI [of _ b] exI [of _ w']) (simp add: b_def)
qed

text \<open>
  The trained example adapter saved to a file of an empty world and loaded into the new
  one: the load succeeds, the new adapter holds the trained state, and both predict the
  same.
\<close>

theorem save_load_round_trip_witness:
  "\<exists>b w'. EfficientNet_load_weight example_fresh ''ckpt.pth''
             (EfficientNet_save_weight example_trained ''ckpt.pth''
                \<lparr>files = Map.empty, stdout = []\<rparr>) = ((b, w'), Inr ()) \<and>
          self_num_classes b = 2 \<and>
          self_network b = ''efficientnet-b0'' \<and>
          parameters (self_model b) = [''_fc.weight'' \<mapsto> ([2], [3, - 1])] \<and>
          self_optimizer b = \<lparr>opt_state = [0 \<mapsto> ([2], [1, 1])], param_groups = [((), 1)]\<rparr> \<and>
          snd (EfficientNet_predict example_torch_env b 2) = [6, - 2]"
proof -
  have same: "same_architecture example_fresh example_trained"
    by (simp add: same_architecture_def example_fresh_def example_trained_def fun_eq_iff)
  have pred: "snd (EfficientNet_predict example_torch_env example_trained 2) = [6, - 2]"
    by (simp add: EfficientNet_predict_def example_torch_env_def example_trained_def)
  show ?thesis
    using save_load_round_trip [OF same, of "''ckpt.pth''" "\<lparr>files = Map.empty, stdout = []\<rparr>"
        example_torch_env 2] pred
    by (simp add: example_trained_def)
qed

end
